theory Spec2Isabelle
  imports Complex_Main "HOL-Library.Log_Nat"
begin

section \<open>Data model\<close>

text \<open>
  The Sequelize models of the marketplace (User, Course, Enrollment, Payment) and the two
  payment routes that write them: \<^verbatim>\<open>POST /create-checkout\<close> and \<^verbatim>\<open>POST /webhook\<close> of
  \<^verbatim>\<open>routes/payments.js\<close>.

  Conventions of the embedding.
  \<^item> A UUID and every other string column is a \<open>string\<close>; a JavaScript value that may be
    \<^verbatim>\<open>undefined\<close> or \<^verbatim>\<open>null\<close> is an \<open>option\<close>.
  \<^item> The type variable \<open>'n\<close> stands for the numeric values the handlers compute with:
    what Sequelize reads back from a \<^verbatim>\<open>DECIMAL(10, 2)\<close> column and the JavaScript Numbers
    made from it. The handlers take the arithmetic on them as a parameter, the record
    \<open>js_number\<close>; the arithmetic JavaScript has, binary floating point, is the instance
    \<open>binary64_number\<close> below.
  \<^item> A row holds the values the handler passes to \<^verbatim>\<open>create\<close>; what the store makes of a
    Number it writes to a \<^verbatim>\<open>DECIMAL(10, 2)\<close> column is not modelled.
  \<^item> \<open>Course\<close> is keyed by its primary key, so the table is a map from ids to the
    other columns of the row; the \<^verbatim>\<open>id\<close> of an instance is the key it was found under.
    \<open>Payment\<close> and \<open>Enrollment\<close> rows get a fresh generated primary key each and the
    model declares no other unique column, so each of these tables is the list of its
    rows in insertion order, without the generated key and the timestamps: two inserts
    of the same field values are two rows.
\<close>

type_synonym uuid = string

record 'n course =
  c_title :: string
  c_description :: string
  c_price :: 'n
  c_thumbnail :: "string option"
  c_enrollmentCount :: int
  c_instructorId :: uuid

datatype payment_method = stripe | paypal

datatype payment_status = pending | completed | failed | refunded

record 'n payment =
  p_studentId :: uuid
  p_courseId :: uuid
  p_instructorId :: uuid
  p_amount :: 'n
  p_currency :: string
  p_paymentMethod :: payment_method
  p_transactionId :: "string option"
  p_status :: payment_status
  p_platformFee :: 'n
  p_instructorPayout :: 'n

record enrollment =
  e_studentId :: uuid
  e_courseId :: uuid
  e_progress :: int

record 'n db =
  courses :: "uuid \<rightharpoonup> 'n course"
  payments :: "'n payment list"
  enrollments :: "enrollment list"

text \<open>
  The arithmetic of JavaScript Numbers the handlers use: \<^verbatim>\<open>a * b\<close>, \<^verbatim>\<open>a - b\<close>,
  \<^verbatim>\<open>Math.round\<close> and the literals \<^verbatim>\<open>0.15\<close> and \<^verbatim>\<open>100\<close>.
\<close>

record 'n js_number =
  num_times :: "'n \<Rightarrow> 'n \<Rightarrow> 'n"
  num_minus :: "'n \<Rightarrow> 'n \<Rightarrow> 'n"
  math_round :: "'n \<Rightarrow> 'n"
  num_015 :: 'n
  num_100 :: 'n

section \<open>Repository calls\<close>

text \<open>
  Every awaited call of a handler is one of the calls below. A call can reject (the
  store is unreachable, the statement is refused): the set \<open>F\<close> a handler run is given
  names the calls that reject in that run. A run also returns the list of the calls it
  made, in order.
\<close>

datatype repo_op =
  CourseFindByPk | EnrollmentFindOne | PaymentCreate | EnrollmentCreate | CourseSave
  | StripeSessionsCreate

datatype error = StorageError repo_op | ValidationError | TypeError

text \<open>
  \<^verbatim>\<open>Course.findByPk\<close> gives \<^verbatim>\<open>null\<close> for a missing key and for an \<^verbatim>\<open>undefined\<close> one;
  the instance it finds is the row with its \<^verbatim>\<open>id\<close>.
\<close>

definition Course_findByPk ::
  "repo_op set \<Rightarrow> 'n db \<Rightarrow> uuid option \<Rightarrow> error + (uuid \<times> 'n course) option" where
  "Course_findByPk F d k =
     (if CourseFindByPk \<in> F then Inl (StorageError CourseFindByPk)
      else Inr (case k of
                  None \<Rightarrow> None
                | Some i \<Rightarrow> (case courses d i of None \<Rightarrow> None | Some row \<Rightarrow> Some (i, row))))"

definition Enrollment_findOne ::
  "repo_op set \<Rightarrow> 'n db \<Rightarrow> uuid \<Rightarrow> uuid option \<Rightarrow> error + enrollment option" where
  "Enrollment_findOne F d studentId courseId =
     (if EnrollmentFindOne \<in> F then Inl (StorageError EnrollmentFindOne)
      else Inr (find (\<lambda>e. e_studentId e = studentId \<and> Some (e_courseId e) = courseId)
                  (enrollments d)))"

text \<open>
  \<^verbatim>\<open>Payment.create\<close>: \<open>studentId\<close>, \<open>courseId\<close> and \<open>instructorId\<close> are
  \<^verbatim>\<open>allowNull: false\<close>, so a missing one fails validation before the insert.
\<close>

definition Payment_create ::
  "repo_op set \<Rightarrow> 'n db \<Rightarrow> uuid option \<Rightarrow> uuid option \<Rightarrow> uuid option \<Rightarrow> 'n \<Rightarrow>
     string option \<Rightarrow> 'n \<Rightarrow> 'n \<Rightarrow> error + 'n db" where
  "Payment_create F d studentId courseId instructorId amount transactionId platformFee
       instructorPayout =
     (case (studentId, courseId, instructorId) of
        (Some s, Some c, Some i) \<Rightarrow>
          if PaymentCreate \<in> F then Inl (StorageError PaymentCreate)
          else Inr (d\<lparr>payments := payments d @
                 [\<lparr>p_studentId = s, p_courseId = c, p_instructorId = i, p_amount = amount,
                   p_currency = ''USD'', p_paymentMethod = stripe,
                   p_transactionId = transactionId, p_status = completed,
                   p_platformFee = platformFee, p_instructorPayout = instructorPayout\<rparr>]\<rparr>)
      | _ \<Rightarrow> Inl ValidationError)"

definition Enrollment_create ::
  "repo_op set \<Rightarrow> 'n db \<Rightarrow> uuid option \<Rightarrow> uuid option \<Rightarrow> error + 'n db" where
  "Enrollment_create F d studentId courseId =
     (case (studentId, courseId) of
        (Some s, Some c) \<Rightarrow>
          if EnrollmentCreate \<in> F then Inl (StorageError EnrollmentCreate)
          else Inr (d\<lparr>enrollments := enrollments d @
                 [\<lparr>e_studentId = s, e_courseId = c, e_progress = 0\<rparr>]\<rparr>)
      | _ \<Rightarrow> Inl ValidationError)"

text \<open>
  \<^verbatim>\<open>course.save()\<close> after \<^verbatim>\<open>course.enrollmentCount += 1\<close>: an UPDATE of the changed
  column of the row with the instance's primary key \<open>i\<close>, to the value the instance
  holds; a row that is gone by then is not written.
\<close>

definition Course_save ::
  "repo_op set \<Rightarrow> 'n db \<Rightarrow> uuid \<Rightarrow> 'n course \<Rightarrow> error + 'n db" where
  "Course_save F d i course =
     (if CourseSave \<in> F then Inl (StorageError CourseSave)
      else Inr (d\<lparr>courses :=
             (case courses d i of
                None \<Rightarrow> courses d
              | Some row \<Rightarrow>
                  (courses d)(i \<mapsto> row\<lparr>c_enrollmentCount := c_enrollmentCount course\<rparr>))\<rparr>))"

section \<open>Requests and responses\<close>

text \<open>
  The Checkout Session of a \<^verbatim>\<open>checkout.session.completed\<close> event: the three entries of
  its \<^verbatim>\<open>metadata\<close> and \<^verbatim>\<open>payment_intent\<close> are what the handler reads; \<open>amount_total\<close> is
  the amount the provider charged, which the event carries too. The \<^verbatim>\<open>metadata\<close> of a
  session can be \<^verbatim>\<open>null\<close>, and an entry of it can be missing.
\<close>

record session_metadata =
  m_courseId :: "uuid option"
  m_studentId :: "uuid option"
  m_instructorId :: "uuid option"

record checkout_session =
  metadata :: "session_metadata option"
  payment_intent :: "string option"
  amount_total :: "int option"

record event =
  ev_type :: string
  ev_object :: checkout_session

datatype body = Send string | Received | Message string | SessionUrl string

type_synonym response = "nat \<times> body"

text \<open>
  What a handler run ends with: \<open>Inr r\<close> when it sends the response \<open>r\<close>, \<open>Inl e\<close> when
  it throws \<open>e\<close> outside every \<^verbatim>\<open>try\<close> and so sends no response of its own.
\<close>

type_synonym outcome = "error + response"

section \<open>POST /webhook\<close>

text \<open>
  The body of the \<^verbatim>\<open>try\<close> block of the handler, for a completed checkout session and
  the \<open>courseId\<close>, \<open>studentId\<close> and \<open>instructorId\<close> taken from its metadata. It
  returns the error the \<^verbatim>\<open>catch\<close> clause logs (if any), the store as the run leaves it
  and the calls made. A failing call ends the block; what earlier calls wrote stays.
  Reading \<^verbatim>\<open>course.price\<close> of the \<^verbatim>\<open>null\<close> that \<^verbatim>\<open>findByPk\<close> gives for an unknown
  id is a TypeError.
\<close>

definition process_completed ::
  "'n js_number \<Rightarrow> repo_op set \<Rightarrow> session_metadata \<Rightarrow> checkout_session \<Rightarrow> 'n db \<Rightarrow>
     error option \<times> 'n db \<times> repo_op list" where
  "process_completed ar F m session d =
     (case Course_findByPk F d (m_courseId m) of
        Inl e \<Rightarrow> (Some e, d, [CourseFindByPk])
      | Inr None \<Rightarrow> (Some TypeError, d, [CourseFindByPk])
      | Inr (Some (i, course)) \<Rightarrow>
          let platformFee = num_times ar (c_price course) (num_015 ar);
              instructorPayout = num_minus ar (c_price course) platformFee
          in (case Payment_create F d (m_studentId m) (m_courseId m)
                     (m_instructorId m) (c_price course) (payment_intent session)
                     platformFee instructorPayout of
                Inl e \<Rightarrow> (Some e, d, [CourseFindByPk, PaymentCreate])
              | Inr d1 \<Rightarrow>
                  (case Enrollment_create F d1 (m_studentId m) (m_courseId m) of
                     Inl e \<Rightarrow> (Some e, d1, [CourseFindByPk, PaymentCreate, EnrollmentCreate])
                   | Inr d2 \<Rightarrow>
                       (case Course_save F d2 i
                              (course\<lparr>c_enrollmentCount := c_enrollmentCount course + 1\<rparr>) of
                          Inl e \<Rightarrow>
                            (Some e, d2,
                             [CourseFindByPk, PaymentCreate, EnrollmentCreate, CourseSave])
                        | Inr d3 \<Rightarrow>
                            (None, d3,
                             [CourseFindByPk, PaymentCreate, EnrollmentCreate, CourseSave])))))"

text \<open>
  The handler. Its first argument after the parameters is the outcome of
  \<^verbatim>\<open>stripe.webhooks.constructEvent(req.body, sig, secret)\<close>, a call into the provider's
  library: \<open>Inl msg\<close> when it throws an error with message \<open>msg\<close>, \<open>Inr ev\<close> when it
  returns the verified event. For a completed session the handler takes the three
  entries out of \<^verbatim>\<open>session.metadata\<close> before it enters the \<^verbatim>\<open>try\<close> block: with a
  \<^verbatim>\<open>null\<close> metadata that is a TypeError no \<^verbatim>\<open>catch\<close> clause of the handler sees.
\<close>

definition webhook ::
  "'n js_number \<Rightarrow> repo_op set \<Rightarrow> string + event \<Rightarrow> 'n db \<Rightarrow>
     outcome \<times> 'n db \<times> repo_op list" where
  "webhook ar F constructed d =
     (case constructed of
        Inl msg \<Rightarrow> (Inr (400, Send (''Webhook Error: '' @ msg)), d, [])
      | Inr ev \<Rightarrow>
          if ev_type ev = ''checkout.session.completed''
          then (case metadata (ev_object ev) of
                  None \<Rightarrow> (Inl TypeError, d, [])
                | Some m \<Rightarrow>
                    (case process_completed ar F m (ev_object ev) d of
                       (_, d', calls) \<Rightarrow> (Inr (200, Received), d', calls)))
          else (Inr (200, Received), d, []))"

text \<open>
  Handler runs one after the other, each finished before the next starts: a run is the
  set of its rejecting calls and the outcome of \<^verbatim>\<open>constructEvent\<close> for its request.
\<close>

fun deliveries ::
  "'n js_number \<Rightarrow> (repo_op set \<times> (string + event)) list \<Rightarrow> 'n db \<Rightarrow> 'n db" where
  "deliveries ar [] d = d"
| "deliveries ar ((F, constructed) # rest) d =
     deliveries ar rest (fst (snd (webhook ar F constructed d)))"

subsection \<open>The handler between its awaits\<close>

text \<open>
  Node runs a handler until it awaits a call, and other handlers run while the call is
  pending. The program points of the \<^verbatim>\<open>try\<close> block are therefore its four awaited
  calls (the run has taken the entries \<open>m\<close> out of the metadata by then); from the
  second on, the handler holds the \<open>course\<close> instance it read at the first. \<open>step\<close> performs the call the handler is waiting at and moves it to the next
  point; the four steps in a row are \<open>process_completed\<close>.
\<close>

datatype 'n pc =
  AtFindByPk
  | AtPaymentCreate uuid "'n course"
  | AtEnrollmentCreate uuid "'n course"
  | AtSave uuid "'n course"
  | Responded "error option"

definition step ::
  "'n js_number \<Rightarrow> repo_op set \<Rightarrow> session_metadata \<Rightarrow> checkout_session \<Rightarrow> 'n pc \<Rightarrow>
     'n db \<Rightarrow> 'n pc \<times> 'n db" where
  "step ar F m session pc d =
     (case pc of
        AtFindByPk \<Rightarrow>
          (case Course_findByPk F d (m_courseId m) of
             Inl e \<Rightarrow> (Responded (Some e), d)
           | Inr None \<Rightarrow> (Responded (Some TypeError), d)
           | Inr (Some (i, course)) \<Rightarrow> (AtPaymentCreate i course, d))
      | AtPaymentCreate i course \<Rightarrow>
          (let platformFee = num_times ar (c_price course) (num_015 ar);
               instructorPayout = num_minus ar (c_price course) platformFee
           in case Payment_create F d (m_studentId m) (m_courseId m)
                     (m_instructorId m) (c_price course) (payment_intent session)
                     platformFee instructorPayout of
                Inl e \<Rightarrow> (Responded (Some e), d)
              | Inr d1 \<Rightarrow> (AtEnrollmentCreate i course, d1))
      | AtEnrollmentCreate i course \<Rightarrow>
          (case Enrollment_create F d (m_studentId m) (m_courseId m) of
             Inl e \<Rightarrow> (Responded (Some e), d)
           | Inr d2 \<Rightarrow> (AtSave i course, d2))
      | AtSave i course \<Rightarrow>
          (case Course_save F d i
                  (course\<lparr>c_enrollmentCount := c_enrollmentCount course + 1\<rparr>) of
             Inl e \<Rightarrow> (Responded (Some e), d)
           | Inr d3 \<Rightarrow> (Responded None, d3))
      | Responded r \<Rightarrow> (Responded r, d))"

record 'n run =
  run_faults :: "repo_op set"
  run_metadata :: session_metadata
  run_session :: checkout_session
  run_pc :: "'n pc"

text \<open>
  Several handler runs over one store: the schedule names, step by step, the run whose
  pending call is performed next.
\<close>

fun interleave ::
  "'n js_number \<Rightarrow> nat list \<Rightarrow> 'n run list \<times> 'n db \<Rightarrow> 'n run list \<times> 'n db" where
  "interleave ar [] st = st"
| "interleave ar (k # schedule) (rs, d) =
     (if k < length rs
      then (case step ar (run_faults (rs ! k)) (run_metadata (rs ! k)) (run_session (rs ! k))
                   (run_pc (rs ! k)) d of
              (pc', d') \<Rightarrow> interleave ar schedule (rs[k := (rs ! k)\<lparr>run_pc := pc'\<rparr>], d'))
      else interleave ar schedule (rs, d))"

section \<open>POST /create-checkout\<close>

text \<open>
  What the handler sends to \<^verbatim>\<open>stripe.checkout.sessions.create\<close>, without the fields
  that are the same in every request (card, usd, quantity 1, mode payment) and the two
  return URLs.
\<close>

record 'n checkout_request =
  r_name :: string
  r_description :: string
  r_images :: "string list"
  r_unit_amount :: 'n
  r_courseId :: uuid
  r_studentId :: uuid
  r_instructorId :: uuid

definition checkout_request :: "'n js_number \<Rightarrow> uuid \<Rightarrow> uuid \<Rightarrow> 'n course \<Rightarrow> 'n checkout_request" where
  "checkout_request ar userId i course =
     \<lparr>r_name = c_title course,
      r_description = take 200 (c_description course),
      r_images = (case c_thumbnail course of None \<Rightarrow> [] | Some t \<Rightarrow> if t = [] then [] else [t]),
      r_unit_amount = math_round ar (num_times ar (c_price course) (num_100 ar)),
      r_courseId = i, r_studentId = userId, r_instructorId = c_instructorId course\<rparr>"

text \<open>
  The handler, behind the \<^verbatim>\<open>auth\<close> and \<^verbatim>\<open>requireRole('student')\<close> middleware: \<open>userId\<close>
  is the authenticated student, \<open>courseId\<close> the \<^verbatim>\<open>courseId\<close> of the request body.
  \<open>session_url\<close> is the provider: the URL of the session it creates for a request. Any
  call that rejects ends in the \<^verbatim>\<open>catch\<close> clause. The handler writes nothing to the
  store.
\<close>

definition create_checkout ::
  "'n js_number \<Rightarrow> repo_op set \<Rightarrow> ('n checkout_request \<Rightarrow> string) \<Rightarrow> uuid \<Rightarrow> uuid option \<Rightarrow>
     'n db \<Rightarrow> response \<times> repo_op list" where
  "create_checkout ar F session_url userId courseId d =
     (case Course_findByPk F d courseId of
        Inl e \<Rightarrow> ((500, Message ''Checkout failed''), [CourseFindByPk])
      | Inr None \<Rightarrow> ((404, Message ''Course not found''), [CourseFindByPk])
      | Inr (Some (i, course)) \<Rightarrow>
          (case Enrollment_findOne F d userId courseId of
             Inl e \<Rightarrow> ((500, Message ''Checkout failed''), [CourseFindByPk, EnrollmentFindOne])
           | Inr (Some existing) \<Rightarrow>
               ((400, Message ''Already enrolled''), [CourseFindByPk, EnrollmentFindOne])
           | Inr None \<Rightarrow>
               if StripeSessionsCreate \<in> F
               then ((500, Message ''Checkout failed''),
                     [CourseFindByPk, EnrollmentFindOne, StripeSessionsCreate])
               else ((200, SessionUrl (session_url (checkout_request ar userId i course))),
                     [CourseFindByPk, EnrollmentFindOne, StripeSessionsCreate])))"

section \<open>JavaScript Numbers\<close>

text \<open>
  A JavaScript Number is an IEEE 754 binary64 value. The finite ones are rationals, and
  an operation returns the exact result rounded to the nearest binary64 value, a tie
  going to the one with the even significand. \<open>exponent x\<close> is the \<open>e\<close> with
  \<open>2\<^sup>e \<le> \<bar>x\<bar> < 2\<^sup>e\<^sup>+\<^sup>1\<close>; the binary64 values around \<open>x\<close> are the multiples of
  \<open>2\<^sup>e\<^sup>-\<^sup>5\<^sup>2\<close>, and of \<open>2\<^sup>-\<^sup>1\<^sup>0\<^sup>7\<^sup>4\<close> below the normal range. Results of \<open>2\<^sup>1\<^sup>0\<^sup>2\<^sup>4\<close>
  and more, which JavaScript gives as \<^verbatim>\<open>Infinity\<close>, are outside the model: a
  \<^verbatim>\<open>DECIMAL(10, 2)\<close> price is below \<open>10\<^sup>8\<close>.
\<close>

definition round_half_even :: "rat \<Rightarrow> int" where
  "round_half_even m =
     (let f = \<lfloor>m\<rfloor>; r = m - of_int f
      in if r < 1 / 2 then f else if 1 / 2 < r then f + 1 else if even f then f else f + 1)"

definition exponent :: "rat \<Rightarrow> int" where
  "exponent x =
     (case quotient_of \<bar>x\<bar> of
        (a, b) \<Rightarrow> let k = bitlen a - bitlen b in if 2 powi k \<le> \<bar>x\<bar> then k else k - 1)"

definition binary64 :: "rat \<Rightarrow> rat" where
  "binary64 x =
     (if x = 0 then 0
      else let q = 2 powi (max (exponent x) (- 1022) - 52)
           in of_int (round_half_even (x / q)) * q)"

text \<open>
  The values the handlers compute with: a \<^verbatim>\<open>DECIMAL\<close> column comes back from the store
  as the string of its decimal value, and \<^verbatim>\<open>*\<close> and \<^verbatim>\<open>-\<close> convert such an operand to
  the nearest Number before they compute.
\<close>

datatype jsval = Decimal rat | Number rat

fun to_number :: "jsval \<Rightarrow> rat" where
  "to_number (Decimal r) = binary64 r"
| "to_number (Number r) = r"

definition binary64_number :: "jsval js_number" where
  "binary64_number =
     \<lparr>num_times = (\<lambda>a b. Number (binary64 (to_number a * to_number b))),
      num_minus = (\<lambda>a b. Number (binary64 (to_number a - to_number b))),
      math_round = (\<lambda>a. Number (of_int \<lfloor>to_number a + 1 / 2\<rfloor>)),
      num_015 = Number (binary64 (15 / 100)), num_100 = Number 100\<rparr>"

section \<open>Worked data\<close>

text \<open>
  A store with one course, priced 100.00, and no payments or enrollments, and two
  completed checkout sessions for that course, of two students. They are the concrete
  inputs of the examples below.
\<close>

definition course1 :: "jsval course" where
  "course1 =
     \<lparr>c_title = ''Logic'', c_description = ''An introduction'', c_price = Decimal 100,
      c_thumbnail = None, c_enrollmentCount = 0, c_instructorId = ''i1''\<rparr>"

definition db1 :: "jsval db" where
  "db1 = \<lparr>courses = [''c1'' \<mapsto> course1], payments = [], enrollments = []\<rparr>"

definition metadata1 :: session_metadata where
  "metadata1 =
     \<lparr>m_courseId = Some ''c1'', m_studentId = Some ''s1'', m_instructorId = Some ''i1''\<rparr>"

definition metadata2 :: session_metadata where
  "metadata2 =
     \<lparr>m_courseId = Some ''c1'', m_studentId = Some ''s2'', m_instructorId = Some ''i1''\<rparr>"

definition session1 :: checkout_session where
  "session1 =
     \<lparr>metadata = Some metadata1, payment_intent = Some ''pi_1'', amount_total = Some 10000\<rparr>"

definition session2 :: checkout_session where
  "session2 =
     \<lparr>metadata = Some metadata2, payment_intent = Some ''pi_2'', amount_total = Some 10000\<rparr>"

definition completed_event :: "checkout_session \<Rightarrow> event" where
  "completed_event session = \<lparr>ev_type = ''checkout.session.completed'', ev_object = session\<rparr>"

section \<open>Notions the properties are stated with\<close>

text \<open>
  The Payment row the webhook handler inserts for a session, given the student, course
  and instructor ids of its metadata and the course instance it found.
\<close>

definition new_payment ::
  "'n js_number \<Rightarrow> checkout_session \<Rightarrow> uuid \<Rightarrow> uuid \<Rightarrow> uuid \<Rightarrow> 'n course \<Rightarrow> 'n payment" where
  "new_payment ar s sid cid iid course =
     \<lparr>p_studentId = sid, p_courseId = cid, p_instructorId = iid, p_amount = c_price course,
      p_currency = ''USD'', p_paymentMethod = stripe, p_transactionId = payment_intent s,
      p_status = completed,
      p_platformFee = num_times ar (c_price course) (num_015 ar),
      p_instructorPayout =
        num_minus ar (c_price course) (num_times ar (c_price course) (num_015 ar))\<rparr>"

text \<open>The Enrollment rows of a (student, course) pair.\<close>

definition enrolled_rows :: "uuid \<Rightarrow> uuid \<Rightarrow> 'n db \<Rightarrow> enrollment list" where
  "enrolled_rows sid cid d =
     filter (\<lambda>e. e_studentId e = sid \<and> e_courseId e = cid) (enrollments d)"

text \<open>
  A handler run for a verified completed-payment event whose metadata names the course
  \<open>cid\<close>, a student and an instructor and none of whose four calls rejects. Given that
  the course exists, these are the runs whose \<^verbatim>\<open>try\<close> block ends without an error
  (\<open>process_completed_no_error_iff\<close> below).
\<close>

definition processed_for :: "uuid \<Rightarrow> repo_op set \<times> (string + event) \<Rightarrow> bool" where
  "processed_for cid r =
     (case snd r of
        Inl msg \<Rightarrow> False
      | Inr ev \<Rightarrow>
          ev_type ev = ''checkout.session.completed''
          \<and> (case metadata (ev_object ev) of
                 None \<Rightarrow> False
               | Some m \<Rightarrow>
                   m_courseId m = Some cid \<and> m_studentId m \<noteq> None
                   \<and> m_instructorId m \<noteq> None)
          \<and> fst r \<inter> {CourseFindByPk, PaymentCreate, EnrollmentCreate, CourseSave} = {})"

section \<open>One run of the webhook handler\<close>

lemma process_completed_no_error_iff:
  "fst (process_completed ar F m s d) = None \<longleftrightarrow>
     (\<exists>cid. m_courseId m = Some cid \<and> courses d cid \<noteq> None)
     \<and> m_studentId m \<noteq> None \<and> m_instructorId m \<noteq> None
     \<and> F \<inter> {CourseFindByPk, PaymentCreate, EnrollmentCreate, CourseSave} = {}"
  by (auto simp: process_completed_def Course_findByPk_def Payment_create_def
      Enrollment_create_def Course_save_def Let_def split: option.splits)

text \<open>
  A run that meets no error writes one Payment row, one Enrollment row and the
  incremented counter, in four calls.
\<close>

lemma process_completed_ok:
  assumes "courses d cid = Some course" and "m_courseId m = Some cid"
    and "m_studentId m = Some sid" and "m_instructorId m = Some iid"
    and "F \<inter> {CourseFindByPk, PaymentCreate, EnrollmentCreate, CourseSave} = {}"
  shows "process_completed ar F m s d =
    (None,
     \<lparr>courses = (courses d)(cid \<mapsto> course\<lparr>c_enrollmentCount := c_enrollmentCount course + 1\<rparr>),
      payments = payments d @ [new_payment ar s sid cid iid course],
      enrollments = enrollments d @ [\<lparr>e_studentId = sid, e_courseId = cid, e_progress = 0\<rparr>]\<rparr>,
     [CourseFindByPk, PaymentCreate, EnrollmentCreate, CourseSave])"
  using assms
  by (simp add: process_completed_def Course_findByPk_def Payment_create_def
      Enrollment_create_def Course_save_def Let_def new_payment_def)

lemma webhook_ok:
  assumes "ev_type ev = ''checkout.session.completed''"
    and "courses d cid = Some course" and "metadata (ev_object ev) = Some m"
    and "m_courseId m = Some cid" and "m_studentId m = Some sid"
    and "m_instructorId m = Some iid"
    and "F \<inter> {CourseFindByPk, PaymentCreate, EnrollmentCreate, CourseSave} = {}"
  shows "webhook ar F (Inr ev) d =
    (Inr (200, Received),
     \<lparr>courses = (courses d)(cid \<mapsto> course\<lparr>c_enrollmentCount := c_enrollmentCount course + 1\<rparr>),
      payments = payments d @ [new_payment ar (ev_object ev) sid cid iid course],
      enrollments = enrollments d @ [\<lparr>e_studentId = sid, e_courseId = cid, e_progress = 0\<rparr>]\<rparr>,
     [CourseFindByPk, PaymentCreate, EnrollmentCreate, CourseSave])"
  using assms by (simp add: webhook_def process_completed_ok [of d cid course m sid iid F])

text \<open>
  The handler taken call by call agrees with the handler taken as a whole: a single run
  scheduled four times ends where \<open>process_completed\<close> ends.
\<close>

lemma interleave_single:
  "interleave ar [0, 0, 0, 0]
     ([\<lparr>run_faults = F, run_metadata = m, run_session = s, run_pc = AtFindByPk\<rparr>], d)
   = (case process_completed ar F m s d of (r, d', calls) \<Rightarrow>
        ([\<lparr>run_faults = F, run_metadata = m, run_session = s, run_pc = Responded r\<rparr>], d'))"
  by (simp add: step_def process_completed_def Let_def
      split: sum.splits option.splits prod.splits)

section \<open>Redelivery\<close>

text \<open>
  C1, as the code has it. The handler keeps no record of the transaction ids it has
  processed, and \<open>transactionId\<close> is not a unique column. Each delivery of a completed
  event that is processed without error therefore writes again: after \<open>n\<close> deliveries
  of one and the same event there are \<open>n\<close> more Payment rows (all with that transaction
  id), \<open>n\<close> more Enrollment rows, and the course's \<open>enrollmentCount\<close> has grown by \<open>n\<close>.
\<close>

theorem webhook_redelivery_accumulates:
  assumes "ev_type ev = ''checkout.session.completed''"
    and "courses d cid = Some course" and "metadata (ev_object ev) = Some m"
    and "m_courseId m = Some cid" and "m_studentId m = Some sid"
    and "m_instructorId m = Some iid"
    and "F \<inter> {CourseFindByPk, PaymentCreate, EnrollmentCreate, CourseSave} = {}"
  shows "deliveries ar (replicate n (F, Inr ev)) d =
     \<lparr>courses = (courses d)(cid \<mapsto> course\<lparr>c_enrollmentCount := c_enrollmentCount course + int n\<rparr>),
      payments = payments d @ replicate n (new_payment ar (ev_object ev) sid cid iid course),
      enrollments = enrollments d @
        replicate n \<lparr>e_studentId = sid, e_courseId = cid, e_progress = 0\<rparr>\<rparr>"
  using assms(2)
proof (induction n arbitrary: d course)
  case 0
  then have "(courses d)(cid \<mapsto> course) = courses d"
    by (simp add: map_upd_triv)
  then show ?case by simp
next
  case (Suc n)
  let ?c1 = "course\<lparr>c_enrollmentCount := c_enrollmentCount course + 1\<rparr>"
  let ?d1 = "\<lparr>courses = (courses d)(cid \<mapsto> ?c1),
      payments = payments d @ [new_payment ar (ev_object ev) sid cid iid course],
      enrollments = enrollments d @ [\<lparr>e_studentId = sid, e_courseId = cid, e_progress = 0\<rparr>]\<rparr>"
  have one: "fst (snd (webhook ar F (Inr ev) d)) = ?d1"
    using webhook_ok [OF assms(1) Suc.prems assms(3-7)] by simp
  have "courses ?d1 cid = Some ?c1" by simp
  from Suc.IH [OF this] have rest: "deliveries ar (replicate n (F, Inr ev)) ?d1 =
     \<lparr>courses = (courses ?d1)(cid \<mapsto> ?c1\<lparr>c_enrollmentCount := c_enrollmentCount ?c1 + int n\<rparr>),
      payments = payments ?d1 @ replicate n (new_payment ar (ev_object ev) sid cid iid ?c1),
      enrollments = enrollments ?d1 @
        replicate n \<lparr>e_studentId = sid, e_courseId = cid, e_progress = 0\<rparr>\<rparr>" .
  have np: "new_payment ar (ev_object ev) sid cid iid ?c1 =
      new_payment ar (ev_object ev) sid cid iid course"
    by (simp add: new_payment_def)
  show ?case
    by (simp add: one rest np add.assoc fun_eq_iff)
qed

text \<open>The theorem at two deliveries of the event of \<open>session1\<close> to the store \<open>db1\<close>.\<close>

theorem webhook_redelivery_witness:
  "deliveries binary64_number (replicate 2 ({}, Inr (completed_event session1))) db1 =
     \<lparr>courses = [''c1'' \<mapsto> course1\<lparr>c_enrollmentCount := 2\<rparr>],
      payments = replicate 2 (new_payment binary64_number session1 ''s1'' ''c1'' ''i1'' course1),
      enrollments = replicate 2 \<lparr>e_studentId = ''s1'', e_courseId = ''c1'', e_progress = 0\<rparr>\<rparr>"
  using webhook_redelivery_accumulates [of "completed_event session1" db1 "''c1''" course1
      metadata1 "''s1''" "''i1''" "{}" binary64_number 2]
  by (simp add: completed_event_def session1_def metadata1_def db1_def course1_def)

text \<open>
  Against C1 as stated: the first delivery is processed and leaves one Payment row, one
  Enrollment row and a counter of 1; delivering the same event once more leaves two
  Payment rows with the same transaction id, two Enrollment rows and a counter of 2.
\<close>

theorem webhook_redelivery_counterexample:
  "map p_transactionId (payments (fst (snd
      (webhook binary64_number {} (Inr (completed_event session1)) db1)))) = [Some ''pi_1'']
   \<and> map p_transactionId (payments (deliveries binary64_number
       [({}, Inr (completed_event session1)), ({}, Inr (completed_event session1))] db1)) =
     [Some ''pi_1'', Some ''pi_1'']
   \<and> length (enrollments (deliveries binary64_number
       [({}, Inr (completed_event session1)), ({}, Inr (completed_event session1))] db1)) = 2
   \<and> map_option c_enrollmentCount (courses (deliveries binary64_number
       [({}, Inr (completed_event session1)), ({}, Inr (completed_event session1))] db1) ''c1'') =
     Some 2"
  by (simp add: webhook_def completed_event_def session1_def metadata1_def db1_def
      process_completed_def
      Course_findByPk_def Payment_create_def Enrollment_create_def Course_save_def Let_def
      course1_def)

section \<open>Failing writes\<close>

text \<open>
  C2, as the code has it. The handler makes three writes (the Payment insert, the
  Enrollment insert and the save of the counter; there is no idempotency mark), one
  after the other and in no transaction. A write that fails skips the later writes and
  leaves the earlier ones in place: if the Payment insert fails nothing is written; if
  the Enrollment insert fails the Payment row stays, without an Enrollment row and with
  the counter unchanged; if the save fails both rows stay and the counter is unchanged.
\<close>

theorem webhook_partial_writes:
  assumes "ev_type ev = ''checkout.session.completed''"
    and "courses d cid = Some course" and "metadata (ev_object ev) = Some m"
    and "m_courseId m = Some cid" and "m_studentId m = Some sid"
    and "m_instructorId m = Some iid"
    and "CourseFindByPk \<notin> F"
  shows "(PaymentCreate \<in> F \<longrightarrow> fst (snd (webhook ar F (Inr ev) d)) = d)
    \<and> (PaymentCreate \<notin> F \<and> EnrollmentCreate \<in> F \<longrightarrow>
         fst (snd (webhook ar F (Inr ev) d)) =
           d\<lparr>payments := payments d @ [new_payment ar (ev_object ev) sid cid iid course]\<rparr>)
    \<and> (PaymentCreate \<notin> F \<and> EnrollmentCreate \<notin> F \<and> CourseSave \<in> F \<longrightarrow>
         fst (snd (webhook ar F (Inr ev) d)) =
           d\<lparr>payments := payments d @ [new_payment ar (ev_object ev) sid cid iid course],
             enrollments := enrollments d @
               [\<lparr>e_studentId = sid, e_courseId = cid, e_progress = 0\<rparr>]\<rparr>)"
  using assms
  by (simp add: webhook_def process_completed_def Course_findByPk_def Payment_create_def
      Enrollment_create_def Course_save_def Let_def new_payment_def)

text \<open>The theorem at a run whose save of the counter is rejected.\<close>

theorem webhook_partial_writes_witness:
  "fst (snd (webhook binary64_number {CourseSave} (Inr (completed_event session1)) db1)) =
     db1\<lparr>payments := [new_payment binary64_number session1 ''s1'' ''c1'' ''i1'' course1],
         enrollments := [\<lparr>e_studentId = ''s1'', e_courseId = ''c1'', e_progress = 0\<rparr>]\<rparr>"
  using webhook_partial_writes [of "completed_event session1" db1 "''c1''" course1
      metadata1 "''s1''" "''i1''" "{CourseSave}" binary64_number]
  by (simp add: completed_event_def session1_def metadata1_def db1_def)

text \<open>
  Against C2 as stated: when the Enrollment insert is rejected, the store is left with a
  Payment row and no Enrollment row.
\<close>

theorem webhook_partial_writes_counterexample:
  "length (payments (fst (snd
      (webhook binary64_number {EnrollmentCreate} (Inr (completed_event session1)) db1)))) = 1
   \<and> enrollments (fst (snd
      (webhook binary64_number {EnrollmentCreate} (Inr (completed_event session1)) db1))) = []
   \<and> payments db1 = []"
  by (simp add: webhook_def completed_event_def session1_def metadata1_def db1_def
      process_completed_def
      Course_findByPk_def Payment_create_def Enrollment_create_def Let_def)

section \<open>The amount of the event\<close>



section \<open>Enrollments of a pair\<close>

text \<open>
  C4, as the code has it. The webhook handler creates the Enrollment without looking
  for an existing one (it never calls \<^verbatim>\<open>Enrollment.findOne\<close>): every run that is
  processed without error adds one Enrollment row for its (student, course) pair,
  however many rows the pair has already. The lookup is made by create-checkout only,
  before a payment is started.
\<close>

theorem webhook_enrollment_unchecked:
  assumes "ev_type ev = ''checkout.session.completed''"
    and "courses d cid = Some course" and "metadata (ev_object ev) = Some m"
    and "m_courseId m = Some cid" and "m_studentId m = Some sid"
    and "m_instructorId m = Some iid"
    and "F \<inter> {CourseFindByPk, PaymentCreate, EnrollmentCreate, CourseSave} = {}"
  shows "length (enrolled_rows sid cid (fst (snd (webhook ar F (Inr ev) d)))) =
           length (enrolled_rows sid cid d) + 1
         \<and> EnrollmentFindOne \<notin> set (snd (snd (webhook ar F (Inr ev) d)))"
  using webhook_ok [OF assms, of ar] by (simp add: enrolled_rows_def)

text \<open>The theorem at a student who is enrolled already, with progress 40.\<close>

theorem webhook_enrollment_unchecked_witness:
  "length (enrolled_rows ''s1'' ''c1''
     (db1\<lparr>enrollments := [\<lparr>e_studentId = ''s1'', e_courseId = ''c1'', e_progress = 40\<rparr>]\<rparr>)) = 1
   \<and> length (enrolled_rows ''s1'' ''c1'' (fst (snd (webhook binary64_number {}
       (Inr (completed_event session1))
       (db1\<lparr>enrollments := [\<lparr>e_studentId = ''s1'', e_courseId = ''c1'', e_progress = 40\<rparr>]\<rparr>))))) = 2"
  using webhook_enrollment_unchecked [of "completed_event session1"
      "db1\<lparr>enrollments := [\<lparr>e_studentId = ''s1'', e_courseId = ''c1'', e_progress = 40\<rparr>]\<rparr>"
      "''c1''" course1 metadata1 "''s1''" "''i1''" "{}" binary64_number]
  by (simp add: completed_event_def session1_def metadata1_def db1_def enrolled_rows_def)

text \<open>
  Against C4 as stated: two completed events of two payments by the same student for
  the same course leave two Enrollment rows for the pair.
\<close>

theorem webhook_enrollment_counterexample:
  "enrolled_rows ''s1'' ''c1'' (deliveries binary64_number
      [({}, Inr (completed_event session1)),
       ({}, Inr (completed_event (session1\<lparr>payment_intent := Some ''pi_3''\<rparr>)))] db1) =
     [\<lparr>e_studentId = ''s1'', e_courseId = ''c1'', e_progress = 0\<rparr>,
      \<lparr>e_studentId = ''s1'', e_courseId = ''c1'', e_progress = 0\<rparr>]"
  by (simp add: webhook_def completed_event_def session1_def metadata1_def db1_def
      process_completed_def
      Course_findByPk_def Payment_create_def Enrollment_create_def Course_save_def Let_def
      enrolled_rows_def)

section \<open>The fee split\<close>

subsection \<open>Rounding to binary64\<close>

text \<open>
  The exponent is the one of the binade of \<open>x\<close>, so the significand \<open>x / 2\<^sup>e\<^sup>-\<^sup>5\<^sup>2\<close> that is
  rounded to an integer has 53 bits.
\<close>

lemma exponent_le:
  assumes "x \<noteq> 0"
  shows "2 powi (exponent x) \<le> \<bar>x\<bar>"
proof -
  obtain a b where ab: "quotient_of \<bar>x\<bar> = (a, b)" by (cases "quotient_of \<bar>x\<bar>")
  then have b: "0 < b" and x: "\<bar>x\<bar> = of_int a / of_int b"
    using quotient_of_denom_pos quotient_of_div by blast+
  have "0 < \<bar>x\<bar>" using assms by simp
  then have "0 < rat_of_int a / rat_of_int b" using x by simp
  then have a: "0 < a" using b by (simp add: zero_less_divide_iff)
  let ?k = "bitlen a - bitlen b"
  show ?thesis
  proof (cases "2 powi ?k \<le> \<bar>x\<bar>")
    case True
    then show ?thesis by (simp add: exponent_def ab Let_def)
  next
    case False
    have la: "2 ^ nat (bitlen a - 1) \<le> a" and lb: "b < 2 ^ nat (bitlen b)"
      using bitlen_bounds [OF a] bitlen_bounds [OF b] by simp_all
    have pa: "1 \<le> bitlen a" and pb: "1 \<le> bitlen b"
      using a b by (simp_all add: bitlen_alt_def)
    have eq: "?k - 1 = (bitlen a - 1) - bitlen b" by simp
    have "(2::rat) powi (?k - 1) = 2 powi ((bitlen a - 1) - bitlen b)"
      by (simp only: eq)
    also have "\<dots> = 2 powi (bitlen a - 1) / 2 powi (bitlen b)"
      by (rule power_int_diff) simp
    also have "\<dots> = 2 ^ nat (bitlen a - 1) / 2 ^ nat (bitlen b)"
      using pa pb by (simp add: power_int_def)
    also have "\<dots> \<le> of_int a / of_int b"
    proof (rule frac_le)
      show "(2::rat) ^ nat (bitlen a - 1) \<le> of_int a"
        using la by (metis of_int_le_iff of_int_numeral of_int_power)
      show "rat_of_int b \<le> 2 ^ nat (bitlen b)"
        using lb by (metis less_imp_le of_int_le_iff of_int_numeral of_int_power)
    qed (use a b in simp_all)
    finally have "(2::rat) powi (?k - 1) \<le> \<bar>x\<bar>"
      by (simp only: x)
    moreover have "exponent x = ?k - 1"
      using False by (simp add: exponent_def ab Let_def)
    ultimately show ?thesis by simp
  qed
qed

lemma exponent_gt:
  assumes "x \<noteq> 0"
  shows "\<bar>x\<bar> < 2 powi (exponent x + 1)"
proof -
  obtain a b where ab: "quotient_of \<bar>x\<bar> = (a, b)" by (cases "quotient_of \<bar>x\<bar>")
  then have b: "0 < b" and x: "\<bar>x\<bar> = of_int a / of_int b"
    using quotient_of_denom_pos quotient_of_div by blast+
  have "0 < \<bar>x\<bar>" using assms by simp
  then have "0 < rat_of_int a / rat_of_int b" using x by simp
  then have a: "0 < a" using b by (simp add: zero_less_divide_iff)
  let ?k = "bitlen a - bitlen b"
  show ?thesis
  proof (cases "2 powi ?k \<le> \<bar>x\<bar>")
    case False
    then have "exponent x = ?k - 1"
      by (simp add: exponent_def ab Let_def)
    with False show ?thesis by simp
  next
    case True
    have la: "a < 2 ^ nat (bitlen a)" and lb: "2 ^ nat (bitlen b - 1) \<le> b"
      using bitlen_bounds [OF a] bitlen_bounds [OF b] by simp_all
    have pa: "1 \<le> bitlen a" and pb: "1 \<le> bitlen b"
      using a b by (simp_all add: bitlen_alt_def)
    have "rat_of_int a / rat_of_int b < 2 ^ nat (bitlen a) / 2 ^ nat (bitlen b - 1)"
    proof (rule frac_less)
      show "rat_of_int a < 2 ^ nat (bitlen a)"
        using la by (metis of_int_less_iff of_int_numeral of_int_power)
      show "(2::rat) ^ nat (bitlen b - 1) \<le> rat_of_int b"
        using lb by (metis of_int_le_iff of_int_numeral of_int_power)
    qed (use a b in simp_all)
    also have "\<dots> = 2 powi (bitlen a) / 2 powi (bitlen b - 1)"
      using pa pb by (simp add: power_int_def)
    also have "\<dots> = 2 powi (bitlen a - (bitlen b - 1))"
      by (rule power_int_diff [symmetric]) simp
    also have "bitlen a - (bitlen b - 1) = ?k + 1" by simp
    finally have "\<bar>x\<bar> < 2 powi (?k + 1)"
      by (simp only: x)
    moreover have "exponent x = ?k"
      using True by (simp add: exponent_def ab Let_def)
    ultimately show ?thesis by simp
  qed
qed

text \<open>Rounding moves a value by half a unit in the last place at most.\<close>

lemma round_half_even_error: "\<bar>of_int (round_half_even m) - m\<bar> \<le> 1 / 2"
proof -
  have "of_int \<lfloor>m\<rfloor> \<le> m" "m < of_int \<lfloor>m\<rfloor> + 1" by linarith+
  then show ?thesis
    by (auto simp: round_half_even_def Let_def)
qed

lemma binary64_error:
  "\<bar>binary64 x - x\<bar> \<le> max (\<bar>x\<bar> * 2 powi (- 53)) (2 powi (- 1075))"
proof (cases "x = 0")
  case True
  then show ?thesis by (simp add: binary64_def)
next
  case False
  define E where "E = max (exponent x) (- 1022)"
  define q :: rat where "q = 2 powi (E - 52)"
  have q: "0 < q" by (simp add: q_def)
  have "binary64 x - x = (of_int (round_half_even (x / q)) - x / q) * q"
    using False q by (simp add: binary64_def q_def E_def Let_def algebra_simps)
  then have "\<bar>binary64 x - x\<bar> = \<bar>of_int (round_half_even (x / q)) - x / q\<bar> * q"
    using q by (simp add: abs_mult)
  also have "\<dots> \<le> 1 / 2 * q"
    using round_half_even_error [of "x / q"] q by (simp add: mult_right_mono)
  also have "\<dots> = 2 powi (E - 53)"
    by (simp add: q_def power_int_diff)
  also have "\<dots> \<le> max (\<bar>x\<bar> * 2 powi (- 53)) (2 powi (- 1075))"
  proof (cases "- 1022 \<le> exponent x")
    case True
    then have "E = exponent x" by (simp add: E_def)
    then have "(2::rat) powi (E - 53) = 2 powi (exponent x) * 2 powi (- 53)"
      by (simp add: power_int_diff power_int_minus field_simps)
    also have "\<dots> \<le> \<bar>x\<bar> * 2 powi (- 53)"
      using exponent_le [OF False] by (simp add: mult_right_mono)
    finally show ?thesis by simp
  next
    case False
    then have "E = - 1022" by (simp add: E_def)
    then show ?thesis by simp
  qed
  finally show ?thesis .
qed

text \<open>The Number nearest to one tenth is \<open>3602879701896397 / 2\<^sup>5\<^sup>5\<close>.\<close>

lemma binary64_tenth: "binary64 (1 / 10) = 3602879701896397 / 36028797018963968"
  by code_simp

subsection \<open>The split the webhook handler computes\<close>

text \<open>
  C5, as the code has it. The handler computes the split with JavaScript Numbers, in
  binary floating point and with no rounding to cents: \<open>platformFee\<close> is the product of
  the price and 0.15, each converted to the nearest Number, rounded to the nearest
  Number, and \<open>instructorPayout\<close> is the difference of the price and \<open>platformFee\<close>,
  rounded likewise. The sum of the two differs from the price (as a Number) by the
  rounding error of the subtraction at most, which is \<open>2\<^sup>-\<^sup>5\<^sup>3\<close> times the difference
  (or \<open>2\<^sup>-\<^sup>1\<^sup>0\<^sup>7\<^sup>5\<close> for a difference below the normal range). For the price 10000 the
  split is 1500 and 8500.
\<close>

theorem fee_split_binary64:
  assumes "ev_type ev = ''checkout.session.completed''"
    and "courses d cid = Some course" and "metadata (ev_object ev) = Some m"
    and "m_courseId m = Some cid" and "m_studentId m = Some sid"
    and "m_instructorId m = Some iid"
    and "F \<inter> {CourseFindByPk, PaymentCreate, EnrollmentCreate, CourseSave} = {}"
    and "c_price course = Decimal p" and "\<bar>p\<bar> < 10 ^ 8"
  shows "(let fee = binary64 (binary64 p * binary64 (15 / 100));
              pay = binary64 (binary64 p - fee)
          in payments (fst (snd (webhook binary64_number F (Inr ev) d))) =
               payments d @
               [\<lparr>p_studentId = sid, p_courseId = cid, p_instructorId = iid,
                 p_amount = Decimal p, p_currency = ''USD'', p_paymentMethod = stripe,
                 p_transactionId = payment_intent (ev_object ev), p_status = completed,
                 p_platformFee = Number fee, p_instructorPayout = Number pay\<rparr>]
             \<and> \<bar>fee + pay - binary64 p\<bar> \<le>
                 max (\<bar>binary64 p - fee\<bar> * 2 powi (- 53)) (2 powi (- 1075)))
         \<and> num_times binary64_number (Decimal 10000) (num_015 binary64_number) = Number 1500
         \<and> num_minus binary64_number (Decimal 10000) (Number 1500) = Number 8500"
proof -
  define fee where "fee = binary64 (binary64 p * binary64 (15 / 100))"
  define pay where "pay = binary64 (binary64 p - fee)"
  have row: "new_payment binary64_number (ev_object ev) sid cid iid course =
      \<lparr>p_studentId = sid, p_courseId = cid, p_instructorId = iid,
        p_amount = Decimal p, p_currency = ''USD'', p_paymentMethod = stripe,
        p_transactionId = payment_intent (ev_object ev), p_status = completed,
        p_platformFee = Number fee, p_instructorPayout = Number pay\<rparr>"
    by (simp add: new_payment_def binary64_number_def assms(8) fee_def pay_def)
  have "fee + pay - binary64 p = pay - (binary64 p - fee)" by simp
  then have bound: "\<bar>fee + pay - binary64 p\<bar> \<le>
      max (\<bar>binary64 p - fee\<bar> * 2 powi (- 53)) (2 powi (- 1075))"
    using binary64_error [of "binary64 p - fee"] by (simp only: pay_def)
  have ex1: "num_times binary64_number (Decimal 10000) (num_015 binary64_number) = Number 1500"
    by code_simp
  have ex2: "num_minus binary64_number (Decimal 10000) (Number 1500) = Number 8500"
    by code_simp
  from webhook_ok [OF assms(1-7), of binary64_number] row bound ex1 ex2 show ?thesis
    unfolding Let_def fee_def pay_def by simp
qed

text \<open>The theorem at a course priced 10000: the split is 1500 and 8500.\<close>

theorem fee_split_binary64_witness:
  "payments (fst (snd (webhook binary64_number {} (Inr (completed_event session1))
       (db1\<lparr>courses := [''c1'' \<mapsto> course1\<lparr>c_price := Decimal 10000\<rparr>]\<rparr>)))) =
     [\<lparr>p_studentId = ''s1'', p_courseId = ''c1'', p_instructorId = ''i1'',
       p_amount = Decimal 10000, p_currency = ''USD'', p_paymentMethod = stripe,
       p_transactionId = Some ''pi_1'', p_status = completed,
       p_platformFee = Number 1500, p_instructorPayout = Number 8500\<rparr>]"
proof -
  have e1: "binary64 (binary64 10000 * binary64 (15 / 100)) = 1500" by code_simp
  have e2: "binary64 (binary64 10000 - 1500) = 8500" by code_simp
  note split = fee_split_binary64 [of "completed_event session1"
      "db1\<lparr>courses := [''c1'' \<mapsto> course1\<lparr>c_price := Decimal 10000\<rparr>]\<rparr>"
      "''c1''" "course1\<lparr>c_price := Decimal 10000\<rparr>" metadata1 "''s1''" "''i1''" "{}" 10000,
      unfolded Let_def e1 e2]
  from split show ?thesis
    by (simp add: completed_event_def session1_def metadata1_def db1_def)
qed

text \<open>
  Against C5 as stated: for a course priced 0.85 the handler computes the fee 0.1275,
  which is not the Number 0.13 that rounding to cents would give, and the payout
  0.7224999999999999, and passes both to \<^verbatim>\<open>Payment.create\<close>; in JavaScript their sum is
  0.8499999999999999, which is not the price.
\<close>

theorem fee_split_counterexample:
  "payments (fst (snd (webhook binary64_number {} (Inr (completed_event session1))
       (db1\<lparr>courses := [''c1'' \<mapsto> course1\<lparr>c_price := Decimal (85 / 100)\<rparr>]\<rparr>)))) =
     [\<lparr>p_studentId = ''s1'', p_courseId = ''c1'', p_instructorId = ''i1'',
       p_amount = Decimal (85 / 100), p_currency = ''USD'', p_paymentMethod = stripe,
       p_transactionId = Some ''pi_1'', p_status = completed,
       p_platformFee = Number (2296835809958953 / 18014398509481984),
       p_instructorPayout = Number (3253850730775183 / 4503599627370496)\<rparr>]
   \<and> binary64 (2296835809958953 / 18014398509481984 + 3253850730775183 / 4503599627370496)
       \<noteq> binary64 (85 / 100)
   \<and> 2296835809958953 / 18014398509481984 \<noteq> binary64 (13 / 100)"
  by code_simp

section \<open>Acknowledgement\<close>

text \<open>
  A completed session whose \<^verbatim>\<open>metadata\<close> is \<^verbatim>\<open>null\<close> never reaches the \<^verbatim>\<open>try\<close> block:
  the handler throws, and sends neither an acknowledgement nor any other response.
\<close>

lemma webhook_null_metadata:
  assumes "ev_type ev = ''checkout.session.completed''" and "metadata (ev_object ev) = None"
  shows "webhook ar F (Inr ev) d = (Inl TypeError, d, [])"
  using assms by (simp add: webhook_def)

text \<open>
  C6, as the code has it. When the processing of a completed-payment event fails in
  the \<^verbatim>\<open>try\<close> block, with a storage error of any of its four calls in particular, the
  error is caught and logged and the endpoint acknowledges receipt all the same: it
  answers 200 with \<^verbatim>\<open>{ received: true }\<close> and does not signal a failure to the provider.
\<close>

theorem webhook_storage_error_acknowledged:
  assumes "ev_type ev = ''checkout.session.completed''"
    and "metadata (ev_object ev) = Some m"
    and "fst (process_completed ar F m (ev_object ev) d) = Some (StorageError call)"
  shows "fst (webhook ar F (Inr ev) d) = Inr (200, Received)"
  using assms(1,2) by (simp add: webhook_def split: prod.splits)

text \<open>The theorem at a run whose Payment insert is rejected.\<close>

theorem webhook_storage_error_witness:
  "fst (process_completed binary64_number {PaymentCreate} metadata1 session1 db1) =
     Some (StorageError PaymentCreate)
   \<and> fst (webhook binary64_number {PaymentCreate} (Inr (completed_event session1)) db1) =
     Inr (200, Received)"
proof -
  have failed: "fst (process_completed binary64_number {PaymentCreate} metadata1
      (ev_object (completed_event session1)) db1) = Some (StorageError PaymentCreate)"
    by (simp add: completed_event_def process_completed_def Course_findByPk_def
        Payment_create_def metadata1_def db1_def Let_def)
  have "ev_type (completed_event session1) = ''checkout.session.completed''"
    and "metadata (ev_object (completed_event session1)) = Some metadata1"
    by (simp_all add: completed_event_def session1_def)
  from webhook_storage_error_acknowledged [OF this failed] failed show ?thesis
    by (simp add: completed_event_def)
qed

text \<open>
  Against C6 as stated: with the store unreachable for every call, processing ends
  with a storage error at the first call and the event is acknowledged all the same.
\<close>

theorem webhook_storage_error_counterexample:
  "fst (process_completed binary64_number
      {CourseFindByPk, PaymentCreate, EnrollmentCreate, CourseSave} metadata1 session1 db1) =
      Some (StorageError CourseFindByPk)
   \<and> fst (webhook binary64_number {CourseFindByPk, PaymentCreate, EnrollmentCreate, CourseSave}
      (Inr (completed_event session1)) db1) = Inr (200, Received)"
  by (simp add: webhook_def completed_event_def session1_def process_completed_def
      Course_findByPk_def)

section \<open>Concurrent runs\<close>

text \<open>
  C7, as the code has it. The increment is a read of the course at the start of the
  run, an addition in the handler and a save of the sum at its end, in no transaction.
  When the runs are processed one after the other, each finished before the next
  starts, \<open>N\<close> runs for the same course that are processed without error leave
  \<open>enrollmentCount\<close> at its initial value plus \<open>N\<close>.
\<close>

theorem sequential_enrollmentCount:
  assumes "courses d cid = Some course" and "list_all (processed_for cid) rs"
  shows "courses (deliveries ar rs d) cid =
           Some (course\<lparr>c_enrollmentCount := c_enrollmentCount course + int (length rs)\<rparr>)"
  using assms
proof (induction rs arbitrary: d course)
  case Nil
  then show ?case by simp
next
  case (Cons r rs)
  obtain F c where r: "r = (F, c)" by (cases r)
  from Cons.prems(2) r obtain ev m sid iid where c: "c = Inr ev"
    and ev: "ev_type ev = ''checkout.session.completed''"
      "metadata (ev_object ev) = Some m" "m_courseId m = Some cid"
      "m_studentId m = Some sid" "m_instructorId m = Some iid"
      "F \<inter> {CourseFindByPk, PaymentCreate, EnrollmentCreate, CourseSave} = {}"
    by (auto simp: processed_for_def split: sum.splits option.splits)
  let ?c1 = "course\<lparr>c_enrollmentCount := c_enrollmentCount course + 1\<rparr>"
  let ?d1 = "fst (snd (webhook ar F (Inr ev) d))"
  have one: "courses ?d1 cid = Some ?c1"
    using webhook_ok [OF ev(1) Cons.prems(1) ev(2-6), of ar] by simp
  have "list_all (processed_for cid) rs"
    using Cons.prems(2) by simp
  from Cons.IH [OF one this] show ?case
    by (simp add: r c add.assoc)
qed

text \<open>The theorem at the purchases of two students, processed one after the other.\<close>

theorem sequential_enrollmentCount_witness:
  "courses (deliveries binary64_number
      [({}, Inr (completed_event session1)), ({}, Inr (completed_event session2))] db1) ''c1'' =
     Some (course1\<lparr>c_enrollmentCount := 2\<rparr>)"
  using sequential_enrollmentCount [of db1 "''c1''" course1
      "[({}, Inr (completed_event session1)), ({}, Inr (completed_event session2))]" binary64_number]
  by (simp add: processed_for_def completed_event_def session1_def session2_def
      metadata1_def metadata2_def db1_def course1_def)

text \<open>
  Against C7 as stated: the same two purchases processed concurrently, the two runs
  taking turns call by call. Both runs end without an error, both read the counter
  before either saves it, and the counter ends at 1, not 2.
\<close>

theorem concurrent_lost_update_counterexample:
  "map run_pc (fst (interleave binary64_number [0, 1, 0, 1, 0, 1, 0, 1]
      ([\<lparr>run_faults = {}, run_metadata = metadata1, run_session = session1,
         run_pc = AtFindByPk\<rparr>,
        \<lparr>run_faults = {}, run_metadata = metadata2, run_session = session2,
         run_pc = AtFindByPk\<rparr>], db1))) =
     [Responded None, Responded None]
   \<and> map_option c_enrollmentCount (courses (snd (interleave binary64_number [0, 1, 0, 1, 0, 1, 0, 1]
      ([\<lparr>run_faults = {}, run_metadata = metadata1, run_session = session1,
         run_pc = AtFindByPk\<rparr>,
        \<lparr>run_faults = {}, run_metadata = metadata2, run_session = session2,
         run_pc = AtFindByPk\<rparr>], db1))) ''c1'') =
     Some 1
   \<and> map_option c_enrollmentCount (courses db1 ''c1'') = Some 0"
  by (simp add: step_def session1_def session2_def metadata1_def metadata2_def db1_def
      course1_def Course_findByPk_def Payment_create_def Enrollment_create_def
      Course_save_def Let_def)

section \<open>Signature failures\<close>

text \<open>
  C8. When \<^verbatim>\<open>constructEvent\<close> throws (the signature does not verify, or the timestamp is
  outside the tolerance), the handler answers with status 400, which is a 4xx status,
  makes no repository call at all and leaves the store as it was.
\<close>

theorem webhook_unverified_no_effects:
  "fst (webhook ar F (Inl msg) d) = Inr (400, Send (''Webhook Error: '' @ msg))
   \<and> fst (snd (webhook ar F (Inl msg) d)) = d
   \<and> snd (snd (webhook ar F (Inl msg) d)) = []"
  by (simp add: webhook_def)

text \<open>
  C9, as the code has it. The rejection has status 400 whatever the reason, and its
  body is the text \<^verbatim>\<open>Webhook Error: \<close> followed by the message of the error that
  \<^verbatim>\<open>constructEvent\<close> threw: two rejected requests get the same response exactly when
  the verifier gave the same message for both.
\<close>

theorem webhook_rejection_echoes_message:
  "fst (webhook ar F (Inl msg) d) = Inr (400, Send (''Webhook Error: '' @ msg))
   \<and> (fst (webhook ar F (Inl msg) d) = fst (webhook ar' F' (Inl msg') d') \<longleftrightarrow> msg = msg')"
  by (simp add: webhook_def)

text \<open>
  Against C9 as stated: the provider's library reports a signature that does not match
  and a timestamp outside the tolerance with different messages (the first is given
  here by its opening sentence), and the two responses differ.
\<close>

theorem webhook_rejection_counterexample:
  "fst (webhook binary64_number {}
      (Inl ''No signatures found matching the expected signature for payload'') db1)
   \<noteq> fst (webhook binary64_number {} (Inl ''Timestamp outside the tolerance zone'') db1)"
  by (simp add: webhook_def)

section \<open>Checkout of an enrolled student\<close>

text \<open>
  A student with an Enrollment row for the course never gets a checkout session,
  whatever the lookups do: a rejected lookup ends the request with 500, and a course
  that is not found with 404, before a session is asked for.
\<close>

lemma create_checkout_enrolled_no_session:
  assumes "e \<in> set (enrollments d)" and "e_studentId e = userId" and "e_courseId e = cid"
  shows "StripeSessionsCreate \<notin> set (snd (create_checkout ar F session_url userId (Some cid) d))"
proof -
  have "find (\<lambda>e. e_studentId e = userId \<and> Some (e_courseId e) = Some cid) (enrollments d)
      \<noteq> None"
    using assms by (auto simp: find_None_iff)
  then show ?thesis
    by (auto simp: create_checkout_def Course_findByPk_def Enrollment_findOne_def
        split: option.splits)
qed

text \<open>
  C10. An authenticated student asks for the checkout of a course, and an Enrollment
  row exists for the student and that course. The row refers to a course of the store
  (the \<open>courseId\<close> of an Enrollment is a foreign key to Course), and the two lookups of
  the handler answer. Then the response is 400 with the message \<^verbatim>\<open>Already enrolled\<close>,
  and the handler has made its two lookups and nothing else: no checkout session was
  created with the provider.
\<close>

theorem create_checkout_already_enrolled:
  assumes "e \<in> set (enrollments d)" and "e_studentId e = userId" and "e_courseId e = cid"
    and "courses d cid = Some course"
    and "CourseFindByPk \<notin> F" and "EnrollmentFindOne \<notin> F"
  shows "create_checkout ar F session_url userId (Some cid) d =
           ((400, Message ''Already enrolled''), [CourseFindByPk, EnrollmentFindOne])
    \<and> StripeSessionsCreate \<notin> set (snd (create_checkout ar F session_url userId (Some cid) d))"
proof -
  have "find (\<lambda>e. e_studentId e = userId \<and> Some (e_courseId e) = Some cid) (enrollments d)
      \<noteq> None"
    using assms(1-3) by (auto simp: find_None_iff)
  then show ?thesis
    using assms(4-6)
    by (auto simp: create_checkout_def Course_findByPk_def Enrollment_findOne_def
        split: option.splits)
qed

text \<open>
  The theorem at an enrolled student whose checkout would otherwise fail at the
  provider: the provider is never asked.
\<close>

theorem create_checkout_already_enrolled_witness:
  "create_checkout binary64_number {StripeSessionsCreate}
     (\<lambda>r. ''https://checkout.example/1'') ''s1'' (Some ''c1'')
     (db1\<lparr>enrollments := [\<lparr>e_studentId = ''s1'', e_courseId = ''c1'', e_progress = 0\<rparr>]\<rparr>) =
     ((400, Message ''Already enrolled''), [CourseFindByPk, EnrollmentFindOne])"
  using create_checkout_already_enrolled [of
      "\<lparr>e_studentId = ''s1'', e_courseId = ''c1'', e_progress = 0\<rparr>"
      "db1\<lparr>enrollments := [\<lparr>e_studentId = ''s1'', e_courseId = ''c1'', e_progress = 0\<rparr>]\<rparr>"
      "''s1''" "''c1''" course1 "{StripeSessionsCreate}" binary64_number
      "\<lambda>r. ''https://checkout.example/1''"]
  by (simp add: db1_def)

section \<open>Further properties\<close>

text \<open>
  A verified event of any type other than \<^verbatim>\<open>checkout.session.completed\<close> is
  acknowledged with 200 and \<^verbatim>\<open>{ received: true }\<close>; the handler makes no repository
  call for it and leaves the store as it was.
\<close>

theorem webhook_other_event_acknowledged:
  assumes "ev_type ev \<noteq> ''checkout.session.completed''"
  shows "webhook ar F (Inr ev) d = (Inr (200, Received), d, [])"
  using assms by (simp add: webhook_def)

text \<open>The theorem at an event of type \<^verbatim>\<open>payment_intent.created\<close>.\<close>

theorem webhook_other_event_witness:
  "webhook binary64_number {} (Inr \<lparr>ev_type = ''payment_intent.created'', ev_object = session1\<rparr>)
     db1 = (Inr (200, Received), db1, [])"
  using webhook_other_event_acknowledged
    [of "\<lparr>ev_type = ''payment_intent.created'', ev_object = session1\<rparr>" binary64_number "{}" db1]
  by simp

text \<open>
  When the course exists, the student has no Enrollment row for it and no call
  rejects, create-checkout looks the course and the enrollment up, creates a checkout
  session and answers 200 with the URL of the session; the metadata of the session
  request names the course, the authenticated student and the course's instructor.
\<close>

theorem create_checkout_opens_session:
  assumes "courses d cid = Some course" and "enrolled_rows userId cid d = []"
    and "F \<inter> {CourseFindByPk, EnrollmentFindOne, StripeSessionsCreate} = {}"
  shows "create_checkout ar F session_url userId (Some cid) d =
     ((200, SessionUrl (session_url (checkout_request ar userId cid course))),
      [CourseFindByPk, EnrollmentFindOne, StripeSessionsCreate])
     \<and> r_courseId (checkout_request ar userId cid course) = cid
     \<and> r_studentId (checkout_request ar userId cid course) = userId
     \<and> r_instructorId (checkout_request ar userId cid course) = c_instructorId course"
proof -
  have "find (\<lambda>e. e_studentId e = userId \<and> Some (e_courseId e) = Some cid) (enrollments d) = None"
    using assms(2) by (auto simp: find_None_iff enrolled_rows_def filter_empty_conv)
  then show ?thesis
    using assms(1,3)
    by (simp add: create_checkout_def Course_findByPk_def Enrollment_findOne_def
        checkout_request_def)
qed

text \<open>The theorem at the first student and the course of \<open>db1\<close>.\<close>

theorem create_checkout_opens_session_witness:
  "create_checkout binary64_number {} (\<lambda>r. ''https://checkout.example/'' @ r_courseId r) ''s1''
     (Some ''c1'') db1 =
     ((200, SessionUrl ''https://checkout.example/c1''),
      [CourseFindByPk, EnrollmentFindOne, StripeSessionsCreate])"
  using create_checkout_opens_session [of db1 "''c1''" course1 "''s1''" "{}" binary64_number
      "\<lambda>r. ''https://checkout.example/'' @ r_courseId r"]
  by (simp add: db1_def enrolled_rows_def)

end
